theory Spec2Isabelle
  imports Complex_Main "HOL-Library.Char_ord" "HOL-Library.List_Lexorder"
begin

section \<open>The benchmarking registry of \<^verbatim>\<open>backend/app/services/benchmarking.py\<close>\<close>

text \<open>
  The class \<^verbatim>\<open>BenchmarkingSystem\<close> keeps a list of test dictionaries and mutates them
  in place. The embedding below passes the registry explicitly, returns the updated
  registry next to the value the method returns, and turns every exception the Python
  raises into an \<open>Inl\<close> result. A method that raises after it has already mutated a
  test returns the mutated registry together with the error, as the Python object keeps
  the mutation when the exception propagates.

  Python numbers (\<^verbatim>\<open>int\<close> and \<^verbatim>\<open>float\<close>) are read as exact real numbers: comparison,
  \<^verbatim>\<open>max\<close>, \<^verbatim>\<open>/\<close>, \<^verbatim>\<open>*\<close> and \<^verbatim>\<open>-\<close> are the exact operations, rounding is not part of the
  model. The clock (\<^verbatim>\<open>time.time()\<close>, \<^verbatim>\<open>datetime.now().isoformat()\<close>) is an input of each
  operation that reads it.
\<close>

subsection \<open>Python values and the operators the module applies to them\<close>

text \<open>
  The metric dictionaries are \<^verbatim>\<open>Dict[str, Any]\<close>. The values the module itself stores are
  numbers and strings (\<^verbatim>\<open>{"error": "Unknown test type"}\<close>), so these are the values of the
  model. Two strings compare lexicographically, character by character (Python compares
  code points, which is the order of the bytes of the UTF-8 text); a string and a number
  do not compare, and arithmetic on a string raises \<^verbatim>\<open>TypeError\<close>.
\<close>

datatype pyval = Num real | Str string

datatype py_error = AttributeError | TypeError | ZeroDivisionError

type_synonym pydict = "string \<rightharpoonup> pyval"

definition dict_get :: "pydict \<Rightarrow> string \<Rightarrow> pyval \<Rightarrow> pyval" where
  \<comment> \<open>\<^verbatim>\<open>d.get(k, default)\<close>\<close>
  "dict_get d k dflt = (case d k of None \<Rightarrow> dflt | Some v \<Rightarrow> v)"

definition py_bind :: "py_error + 'a \<Rightarrow> ('a \<Rightarrow> py_error + 'b) \<Rightarrow> py_error + 'b" where
  \<comment> \<open>sequencing: the first exception raised ends the evaluation\<close>
  "py_bind r f = (case r of Inl e \<Rightarrow> Inl e | Inr v \<Rightarrow> f v)"

fun py_lt :: "pyval \<Rightarrow> pyval \<Rightarrow> py_error + bool" where
  \<comment> \<open>\<^verbatim>\<open>a < b\<close>: numbers by value, strings lexicographically, mixed operands raise\<close>
  "py_lt (Num a) (Num b) = Inr (a < b)"
| "py_lt (Str s) (Str t) = Inr (s < t)"
| "py_lt _ _ = Inl TypeError"

fun py_gt :: "pyval \<Rightarrow> pyval \<Rightarrow> py_error + bool" where
  \<comment> \<open>\<^verbatim>\<open>a > b\<close>\<close>
  "py_gt (Num a) (Num b) = Inr (a > b)"
| "py_gt (Str s) (Str t) = Inr (s > t)"
| "py_gt _ _ = Inl TypeError"

definition py_max :: "pyval \<Rightarrow> pyval \<Rightarrow> py_error + pyval" where
  \<comment> \<open>\<^verbatim>\<open>max(a, b)\<close> keeps \<open>a\<close> unless \<^verbatim>\<open>b > a\<close>\<close>
  "py_max a b = py_bind (py_gt b a) (\<lambda>g. Inr (if g then b else a))"

fun py_truediv :: "pyval \<Rightarrow> pyval \<Rightarrow> py_error + real" where
  \<comment> \<open>\<^verbatim>\<open>a / b\<close>\<close>
  "py_truediv (Num a) (Num b) = (if b = 0 then Inl ZeroDivisionError else Inr (a / b))"
| "py_truediv _ _ = Inl TypeError"

fun py_mul_float :: "pyval \<Rightarrow> real \<Rightarrow> py_error + real" where
  \<comment> \<open>\<^verbatim>\<open>a * c\<close> for a float literal \<open>c\<close>: a string operand raises\<close>
  "py_mul_float (Num a) c = Inr (a * c)"
| "py_mul_float (Str s) c = Inl TypeError"

subsection \<open>Rendering the identifier\<close>

definition py_int :: "real \<Rightarrow> int" where
  \<comment> \<open>\<^verbatim>\<open>int(x)\<close> on a float truncates towards zero\<close>
  "py_int x = (if 0 \<le> x then \<lfloor>x\<rfloor> else \<lceil>x\<rceil>)"

fun str_nat :: "nat \<Rightarrow> string" where
  "str_nat n =
     (if n < 10 then [''0123456789'' ! n]
      else str_nat (n div 10) @ [''0123456789'' ! (n mod 10)])"

declare str_nat.simps [simp del]

definition str_int :: "int \<Rightarrow> string" where
  \<comment> \<open>the decimal text an f-string gives for an \<^verbatim>\<open>int\<close>\<close>
  "str_int i = (if i < 0 then CHR ''-'' # str_nat (nat (- i)) else str_nat (nat i))"

subsection \<open>Data model\<close>

record accuracy_comparison =
  acc_ai :: pyval
  acc_human :: pyval
  acc_winner :: string

record cost_comparison =
  ai_cost :: real
  human_cost :: real
  savings :: real

record comparison_result =
  speed_advantage :: string
  speed_multiplier :: real
  accuracy :: accuracy_comparison
  cost :: cost_comparison
  overall_winner :: string

text \<open>
  A test dictionary. The keys \<^verbatim>\<open>ai_completed_at\<close>, \<^verbatim>\<open>human_completed_at\<close> and
  \<^verbatim>\<open>comparison\<close> do not exist until they are assigned (\<open>None\<close> is the missing key);
  \<^verbatim>\<open>ai_results\<close> and \<^verbatim>\<open>human_results\<close> exist from creation with the Python value
  \<^verbatim>\<open>None\<close> (\<open>None\<close> here as well).
\<close>

record benchmark_test =
  test_id :: string
  test_type :: string
  scenario :: pydict
  complexity :: string
  created_at :: string
  status :: string
  ai_results :: "pydict option"
  human_results :: "pydict option"
  ai_completed_at :: "string option"
  human_completed_at :: "string option"
  comparison :: "comparison_result option"

record registry =
  tests :: "benchmark_test list"
  results :: "pyval list"

definition init :: registry where
  \<comment> \<open>\<^verbatim>\<open>__init__\<close>\<close>
  "init = \<lparr>tests = [], results = []\<rparr>"

subsection \<open>Operations\<close>

definition create_benchmark_test ::
  "string \<Rightarrow> pydict \<Rightarrow> string \<Rightarrow> real \<Rightarrow> string \<Rightarrow> registry \<Rightarrow> benchmark_test \<times> registry" where
  \<comment> \<open>\<open>now\<close> is \<^verbatim>\<open>time.time()\<close>, \<open>stamp\<close> is \<^verbatim>\<open>datetime.now().isoformat()\<close>\<close>
  "create_benchmark_test ttype scen cplx now stamp reg =
     (let test = \<lparr>test_id = ''bench_'' @ str_int (py_int now),
                  test_type = ttype,
                  scenario = scen,
                  complexity = cplx,
                  created_at = stamp,
                  status = ''pending'',
                  ai_results = None,
                  human_results = None,
                  ai_completed_at = None,
                  human_completed_at = None,
                  comparison = None\<rparr>
      in (test, reg\<lparr>tests := tests reg @ [test]\<rparr>))"

fun get_test :: "benchmark_test list \<Rightarrow> string \<Rightarrow> benchmark_test option" where
  \<comment> \<open>\<^verbatim>\<open>_get_test\<close>: the first test of the list with the identifier\<close>
  "get_test [] tid = None"
| "get_test (t # ts) tid = (if test_id t = tid then Some t else get_test ts tid)"

fun test_index :: "benchmark_test list \<Rightarrow> string \<Rightarrow> nat option" where
  \<comment> \<open>the position of the dictionary that \<^verbatim>\<open>_get_test\<close> returns a reference to\<close>
  "test_index [] tid = None"
| "test_index (t # ts) tid =
     (if test_id t = tid then Some 0 else map_option Suc (test_index ts tid))"

definition ai_result :: "string \<Rightarrow> real \<Rightarrow> real \<Rightarrow> pydict" where
  \<comment> \<open>the simulated result by test type; \<open>t0\<close> and \<open>t1\<close> are the two clock readings\<close>
  "ai_result ttype t0 t1 =
     (if ttype = ''tax_preparation'' then
        [''time_taken'' \<mapsto> Num (t1 - t0),
         ''accuracy_score'' \<mapsto> Num (98 / 100),
         ''completeness'' \<mapsto> Num 1,
         ''optimizations_found'' \<mapsto> Num 12,
         ''errors'' \<mapsto> Num 0,
         ''tax_saved'' \<mapsto> Num 8500]
      else if ttype = ''audit_defense'' then
        [''time_taken'' \<mapsto> Num (t1 - t0),
         ''response_quality'' \<mapsto> Num (95 / 100),
         ''legal_citations'' \<mapsto> Num 15,
         ''strategy_completeness'' \<mapsto> Num (97 / 100),
         ''estimated_success_rate'' \<mapsto> Num (82 / 100)]
      else if ttype = ''research'' then
        [''time_taken'' \<mapsto> Num (t1 - t0),
         ''sources_found'' \<mapsto> Num 23,
         ''relevance_score'' \<mapsto> Num (94 / 100),
         ''depth_of_analysis'' \<mapsto> Num (96 / 100)]
      else [''error'' \<mapsto> Str ''Unknown test type''])"

definition run_ai_benchmark ::
  "string \<Rightarrow> real \<Rightarrow> real \<Rightarrow> string \<Rightarrow> registry \<Rightarrow> pydict \<times> registry" where
  "run_ai_benchmark tid t0 t1 stamp reg =
     (case test_index (tests reg) tid of
        None \<Rightarrow> ([''error'' \<mapsto> Str ''Test not found''], reg)
      | Some i \<Rightarrow>
          (let test = tests reg ! i;
               result = ai_result (test_type test) t0 t1;
               test' = test\<lparr>ai_results := Some result, ai_completed_at := Some stamp\<rparr>
           in (result, reg\<lparr>tests := (tests reg)[i := test']\<rparr>)))"

definition calculate_comparison :: "benchmark_test \<Rightarrow> py_error + comparison_result" where
  \<comment> \<open>\<^verbatim>\<open>_calculate_comparison\<close>; \<^verbatim>\<open>.get\<close> on the value \<^verbatim>\<open>None\<close> raises \<^verbatim>\<open>AttributeError\<close>\<close>
  "calculate_comparison test =
     (case ai_results test of
        None \<Rightarrow> Inl AttributeError
      | Some ai \<Rightarrow>
     (case human_results test of
        None \<Rightarrow> Inl AttributeError
      | Some human \<Rightarrow>
          py_bind (py_lt (dict_get ai ''time_taken'' (Num 0)) (dict_get human ''time_taken'' (Num 999)))
            (\<lambda>faster.
          py_bind (py_max (dict_get ai ''time_taken'' (Num 1)) (Num (1 / 10)))
            (\<lambda>floored.
          py_bind (py_truediv (dict_get human ''time_taken'' (Num 1)) floored)
            (\<lambda>multiplier.
          py_bind (py_gt (dict_get ai ''accuracy_score'' (Num 0)) (dict_get human ''accuracy_score'' (Num 0)))
            (\<lambda>more_accurate.
          py_bind (py_mul_float (dict_get ai ''time_taken'' (Num 0)) (1 / 100))
            (\<lambda>c_ai.
          py_bind (py_truediv (dict_get human ''time_taken'' (Num 0)) (Num 3600))
            (\<lambda>hours.
            Inr \<lparr>speed_advantage = (if faster then ''AI'' else ''Human''),
                 speed_multiplier = multiplier,
                 accuracy = \<lparr>acc_ai = dict_get ai ''accuracy_score'' (Num 0),
                             acc_human = dict_get human ''accuracy_score'' (Num 0),
                             acc_winner = (if more_accurate then ''AI'' else ''Human'')\<rparr>,
                 cost = \<lparr>ai_cost = c_ai,
                         human_cost = hours * 150,
                         savings = hours * 150 - c_ai\<rparr>,
                 overall_winner = ''AI''\<rparr>))))))))"

datatype response = ErrorDict string | ComparisonDict comparison_result

definition record_human_results ::
  "string \<Rightarrow> pydict \<Rightarrow> string \<Rightarrow> registry \<Rightarrow> (py_error + response) \<times> registry" where
  \<comment> \<open>\<open>ErrorDict s\<close> is the returned dictionary \<^verbatim>\<open>{"error": s}\<close>\<close>
  "record_human_results tid human stamp reg =
     (case test_index (tests reg) tid of
        None \<Rightarrow> (Inr (ErrorDict ''Test not found''), reg)
      | Some i \<Rightarrow>
          (let test = (tests reg ! i)\<lparr>human_results := Some human,
                                      human_completed_at := Some stamp,
                                      status := ''completed''\<rparr>
           in (case calculate_comparison test of
                 Inl e \<Rightarrow> (Inl e, reg\<lparr>tests := (tests reg)[i := test]\<rparr>)
               | Inr c \<Rightarrow>
                   (Inr (ComparisonDict c),
                    reg\<lparr>tests := (tests reg)[i := test\<lparr>comparison := Some c\<rparr>]\<rparr>))))"

definition get_all_tests :: "registry \<Rightarrow> benchmark_test list" where
  "get_all_tests reg = tests reg"

record leaderboard =
  total_tests :: int
  ai_wins :: int
  human_wins :: int
  ai_win_rate :: real
  average_speed_improvement :: real
  total_cost_savings :: real

definition won_by_ai :: "benchmark_test \<Rightarrow> bool" where
  \<comment> \<open>\<^verbatim>\<open>t.get("comparison", {}).get("overall_winner") == "AI"\<close>\<close>
  "won_by_ai t = (case comparison t of None \<Rightarrow> False | Some c \<Rightarrow> overall_winner c = ''AI'')"

definition has_comparison :: "benchmark_test \<Rightarrow> bool" where
  \<comment> \<open>the truth value of \<^verbatim>\<open>t.get("comparison")\<close>: a stored comparison is a non-empty dictionary\<close>
  "has_comparison t = (comparison t \<noteq> None)"

definition get_leaderboard :: "registry \<Rightarrow> leaderboard" where
  \<comment> \<open>\<open>average_speed_improvement\<close> is the number that the source then formats as text
      (\<^verbatim>\<open>f"{avg:.1f}x faster"\<close>); the formatting is not modelled\<close>
  "get_leaderboard reg =
     (let wins = sum_list (map (\<lambda>t. 1) (filter won_by_ai (tests reg)));
          losses = int (length (tests reg)) - wins;
          avg = sum_list (map (\<lambda>t. case comparison t of None \<Rightarrow> 0 | Some c \<Rightarrow> speed_multiplier c)
                              (filter has_comparison (tests reg)))
                / real_of_int (max (int (length (filter has_comparison (tests reg)))) 1)
      in \<lparr>total_tests = int (length (tests reg)),
          ai_wins = wins,
          human_wins = losses,
          ai_win_rate = real_of_int wins / real_of_int (max (int (length (tests reg))) 1),
          average_speed_improvement = avg,
          total_cost_savings =
            sum_list (map (\<lambda>t. case comparison t of None \<Rightarrow> 0 | Some c \<Rightarrow> savings (cost c))
                          (tests reg))\<rparr>)"

subsection \<open>Calls and reachable registries\<close>

datatype call =
    Create string pydict string real string
  | RunAi string real real string
  | RecordHuman string pydict string

fun step :: "registry \<Rightarrow> call \<Rightarrow> registry" where
  "step reg (Create ttype scen cplx now stamp) = snd (create_benchmark_test ttype scen cplx now stamp reg)"
| "step reg (RunAi tid t0 t1 stamp) = snd (run_ai_benchmark tid t0 t1 stamp reg)"
| "step reg (RecordHuman tid human stamp) = snd (record_human_results tid human stamp reg)"

inductive reachable :: "registry \<Rightarrow> bool" where
  reachable_init: "reachable init"
| reachable_step: "reachable reg \<Longrightarrow> reachable (step reg c)"

subsection \<open>Example runs\<close>

text \<open>
  Clock readings are seconds since the epoch; \<open>6800000001 / 4\<close> is \<open>1700000000.25\<close> and
  \<open>6800000003 / 4\<close> is \<open>1700000000.75\<close>.
\<close>

definition ex_created :: registry where
  "ex_created =
     snd (create_benchmark_test ''tax_preparation'' Map.empty ''high'' (6800000001 / 4)
            ''2023-11-14T22:13:20.250000'' init)"

definition ex_same_second :: registry where
  "ex_same_second =
     snd (create_benchmark_test ''research'' Map.empty ''high'' (6800000003 / 4)
            ''2023-11-14T22:13:20.750000'' ex_created)"

definition ex_ai_done :: registry where
  "ex_ai_done =
     snd (run_ai_benchmark ''bench_1700000000'' 1700000001 1700000006
            ''2023-11-14T22:13:26'' ex_created)"

definition ex_ai_again :: registry where
  "ex_ai_again =
     snd (run_ai_benchmark ''bench_1700000000'' 1700000010 1700000012
            ''2023-11-14T22:13:32'' ex_ai_done)"

definition ex_human :: pydict where
  "ex_human = [''time_taken'' \<mapsto> Num 10800, ''accuracy_score'' \<mapsto> Num (95 / 100)]"

definition ex_completed :: registry where
  "ex_completed =
     snd (record_human_results ''bench_1700000000'' ex_human ''2023-11-15T01:13:26'' ex_ai_done)"

definition ex_human_first :: registry where
  "ex_human_first =
     snd (record_human_results ''bench_1700000000'' ex_human ''2023-11-15T01:13:26'' ex_created)"

definition ex_one_of_two :: registry where
  "ex_one_of_two =
     snd (create_benchmark_test ''research'' Map.empty ''high'' 1700020000
            ''2023-11-15T03:46:40'' ex_completed)"

definition ex_test :: benchmark_test where
  \<comment> \<open>the first test of \<open>ex_ai_done\<close> once the human result is stored\<close>
  "ex_test =
     \<lparr>test_id = ''bench_1700000000'', test_type = ''tax_preparation'', scenario = Map.empty,
       complexity = ''high'', created_at = ''2023-11-14T22:13:20.250000'', status = ''completed'',
       ai_results = Some (ai_result ''tax_preparation'' 1700000001 1700000006),
       human_results = Some ex_human,
       ai_completed_at = Some ''2023-11-14T22:13:26'',
       human_completed_at = Some ''2023-11-15T01:13:26'', comparison = None\<rparr>"

definition ex_cmp :: comparison_result where
  "ex_cmp =
     \<lparr>speed_advantage = ''AI'', speed_multiplier = 2160,
       accuracy = \<lparr>acc_ai = Num (98 / 100), acc_human = Num (95 / 100), acc_winner = ''AI''\<rparr>,
       cost = \<lparr>ai_cost = 5 / 100, human_cost = 450, savings = 44995 / 100\<rparr>,
       overall_winner = ''AI''\<rparr>"

definition ex_tie :: pydict where
  "ex_tie = [''time_taken'' \<mapsto> Num 7, ''accuracy_score'' \<mapsto> Num (9 / 10)]"

definition ex_tie_test :: benchmark_test where
  "ex_tie_test = ex_test\<lparr>ai_results := Some ex_tie, human_results := Some ex_tie\<rparr>"

definition ex_tie_cmp :: comparison_result where
  "ex_tie_cmp =
     \<lparr>speed_advantage = ''Human'', speed_multiplier = 1,
       accuracy = \<lparr>acc_ai = Num (9 / 10), acc_human = Num (9 / 10), acc_winner = ''Human''\<rparr>,
       cost = \<lparr>ai_cost = 7 / 100, human_cost = 7 / 24, savings = 7 / 24 - 7 / 100\<rparr>,
       overall_winner = ''AI''\<rparr>"

section \<open>Properties\<close>

subsection \<open>Lookup\<close>

lemma test_index_bound:
  "test_index ts tid = Some i \<Longrightarrow> i < length ts \<and> test_id (ts ! i) = tid"
  by (induction ts arbitrary: i) (auto split: if_splits)

lemma test_index_None: "test_index ts tid = None \<longleftrightarrow> tid \<notin> test_id ` set ts"
  by (induction ts) auto

text \<open>\<open>test_index\<close> is the position of the test that \<open>get_test\<close> returns.\<close>

lemma get_test_index: "get_test ts tid = map_option (\<lambda>i. ts ! i) (test_index ts tid)"
  by (induction ts) (simp_all add: option.map_comp comp_def)

subsection \<open>The comparison\<close>

lemma py_bind_Inr: "py_bind r f = Inr v \<longleftrightarrow> (\<exists>x. r = Inr x \<and> f x = Inr v)"
  by (cases r) (simp_all add: py_bind_def)

lemma py_max_floor: "py_max (Num a) (Num (1 / 10)) = Inr (Num (max a (1 / 10)))"
  by (simp add: py_max_def py_bind_def max_def)

lemma calculate_comparison_Inr:
  assumes "calculate_comparison test = Inr c"
  obtains ai human faster floored more_accurate
  where "ai_results test = Some ai" and "human_results test = Some human"
    and "py_lt (dict_get ai ''time_taken'' (Num 0)) (dict_get human ''time_taken'' (Num 999)) = Inr faster"
    and "py_max (dict_get ai ''time_taken'' (Num 1)) (Num (1 / 10)) = Inr floored"
    and "py_truediv (dict_get human ''time_taken'' (Num 1)) floored = Inr (speed_multiplier c)"
    and "py_gt (dict_get ai ''accuracy_score'' (Num 0)) (dict_get human ''accuracy_score'' (Num 0)) = Inr more_accurate"
    and "speed_advantage c = (if faster then ''AI'' else ''Human'')"
    and "acc_winner (accuracy c) = (if more_accurate then ''AI'' else ''Human'')"
    and "overall_winner c = ''AI''"
  using assms unfolding calculate_comparison_def
  by (auto simp: py_bind_Inr split: option.splits)

lemma ai_result_tax:
  "ai_result ''tax_preparation'' t0 t1 ''time_taken'' = Some (Num (t1 - t0))"
  "ai_result ''tax_preparation'' t0 t1 ''accuracy_score'' = Some (Num (98 / 100))"
  by (simp_all add: ai_result_def)

text \<open>
  The scenario of the specification: the AI takes 5 seconds with accuracy 0.98, the human
  10800 seconds with accuracy 0.95.
\<close>

lemma ex_comparison: "calculate_comparison ex_test = Inr ex_cmp"
  by (simp add: ex_test_def ex_cmp_def calculate_comparison_def py_bind_def py_max_def
      dict_get_def ai_result_tax ex_human_def)

lemma ex_tie_comparison: "calculate_comparison ex_tie_test = Inr ex_tie_cmp"
  by (simp add: ex_tie_test_def ex_test_def ex_tie_cmp_def calculate_comparison_def py_bind_def
      py_max_def dict_get_def ex_tie_def)

text \<open>
  C5. Whatever the AI and the human metric records are, a comparison that
  \<open>calculate_comparison\<close> computes from them names the AI as overall winner: the field is
  the constant \<open>''AI''\<close> and does not depend on the speed, accuracy or cost sub-comparisons.
\<close>

theorem overall_winner_always_ai:
  "calculate_comparison test = Inr c \<Longrightarrow> overall_winner c = ''AI''"
  by (erule calculate_comparison_Inr)

theorem overall_winner_always_ai_witness:
  "calculate_comparison ex_tie_test = Inr ex_tie_cmp \<and>
   acc_winner (accuracy ex_tie_cmp) = ''Human'' \<and> speed_advantage ex_tie_cmp = ''Human'' \<and>
   overall_winner ex_tie_cmp = ''AI''"
  using ex_tie_comparison overall_winner_always_ai [OF ex_tie_comparison]
  by (simp add: ex_tie_cmp_def)

text \<open>
  C7. When both results hold a non-negative number under \<open>time_taken\<close>, the speed
  multiplier of a computed comparison is the human time divided by the larger of the AI
  time and the floor \<open>0.1\<close>, and it is not negative.
\<close>

theorem speed_multiplier_formula:
  assumes "calculate_comparison test = Inr c"
    and "ai_results test = Some ai" and "human_results test = Some human"
    and "ai ''time_taken'' = Some (Num a)" and "human ''time_taken'' = Some (Num h)"
    and "0 \<le> a" and "0 \<le> h"
  shows "speed_multiplier c = h / max a (1 / 10) \<and> 0 \<le> speed_multiplier c"
proof -
  from assms(1) obtain floored
    where m: "py_max (dict_get ai ''time_taken'' (Num 1)) (Num (1 / 10)) = Inr floored"
      and d: "py_truediv (dict_get human ''time_taken'' (Num 1)) floored = Inr (speed_multiplier c)"
    using assms(2,3) by (auto elim!: calculate_comparison_Inr)
  from m assms(4) have "floored = Num (max a (1 / 10))"
    by (simp add: dict_get_def py_max_floor)
  with d assms(5) have "speed_multiplier c = h / max a (1 / 10)"
    by (simp add: dict_get_def split: if_splits)
  moreover have "0 \<le> h / max a (1 / 10)"
    using assms(6,7) by simp
  ultimately show ?thesis by simp
qed

theorem speed_multiplier_formula_witness:
  "calculate_comparison ex_test = Inr ex_cmp \<and>
   ai_results ex_test = Some (ai_result ''tax_preparation'' 1700000001 1700000006) \<and>
   human_results ex_test = Some ex_human \<and>
   ai_result ''tax_preparation'' 1700000001 1700000006 ''time_taken'' = Some (Num 5) \<and>
   ex_human ''time_taken'' = Some (Num 10800) \<and>
   speed_multiplier ex_cmp = 10800 / max 5 (1 / 10) \<and> 0 \<le> speed_multiplier ex_cmp"
proof -
  have a: "ai_results ex_test = Some (ai_result ''tax_preparation'' 1700000001 1700000006)"
    and h: "human_results ex_test = Some ex_human"
    by (simp_all add: ex_test_def)
  have ta: "ai_result ''tax_preparation'' 1700000001 1700000006 ''time_taken'' = Some (Num 5)"
    by (simp add: ai_result_tax)
  have th: "ex_human ''time_taken'' = Some (Num 10800)"
    by (simp add: ex_human_def)
  from speed_multiplier_formula [OF ex_comparison a h ta th]
  show ?thesis using ex_comparison a h ta th by simp
qed

text \<open>
  C8. Ties favour the human. When both results hold a number under \<open>time_taken\<close>, the
  speed advantage of a computed comparison is the AI's exactly when the AI time is strictly
  lower; when both hold a number under \<open>accuracy_score\<close>, the accuracy winner is the AI
  exactly when the AI score is strictly greater. On equality each field is \<open>''Human''\<close>.
\<close>

theorem ties_favor_human:
  assumes "calculate_comparison test = Inr c"
    and "ai_results test = Some ai" and "human_results test = Some human"
  shows "(ai ''time_taken'' = Some (Num a) \<and> human ''time_taken'' = Some (Num h) \<longrightarrow>
           (speed_advantage c = ''AI'' \<longleftrightarrow> a < h) \<and>
           (a = h \<longrightarrow> speed_advantage c = ''Human'')) \<and>
         (ai ''accuracy_score'' = Some (Num x) \<and> human ''accuracy_score'' = Some (Num y) \<longrightarrow>
           (acc_winner (accuracy c) = ''AI'' \<longleftrightarrow> y < x) \<and>
           (x = y \<longrightarrow> acc_winner (accuracy c) = ''Human''))"
proof -
  from assms obtain faster more_accurate
    where f: "py_lt (dict_get ai ''time_taken'' (Num 0)) (dict_get human ''time_taken'' (Num 999)) = Inr faster"
      and g: "py_gt (dict_get ai ''accuracy_score'' (Num 0)) (dict_get human ''accuracy_score'' (Num 0)) = Inr more_accurate"
      and s: "speed_advantage c = (if faster then ''AI'' else ''Human'')"
      and w: "acc_winner (accuracy c) = (if more_accurate then ''AI'' else ''Human'')"
    by (auto elim!: calculate_comparison_Inr)
  show ?thesis
    using f g s w by (auto simp: dict_get_def)
qed

theorem ties_favor_human_witness:
  "calculate_comparison ex_tie_test = Inr ex_tie_cmp \<and>
   ai_results ex_tie_test = Some ex_tie \<and> human_results ex_tie_test = Some ex_tie \<and>
   ex_tie ''time_taken'' = Some (Num 7) \<and> ex_tie ''accuracy_score'' = Some (Num (9 / 10)) \<and>
   speed_advantage ex_tie_cmp = ''Human'' \<and> acc_winner (accuracy ex_tie_cmp) = ''Human'' \<and>
   calculate_comparison ex_test = Inr ex_cmp \<and>
   speed_advantage ex_cmp = ''AI'' \<and> acc_winner (accuracy ex_cmp) = ''AI''"
proof -
  have r: "ai_results ex_tie_test = Some ex_tie" "human_results ex_tie_test = Some ex_tie"
    by (simp_all add: ex_tie_test_def)
  have v: "ex_tie ''time_taken'' = Some (Num 7)" "ex_tie ''accuracy_score'' = Some (Num (9 / 10))"
    by (simp_all add: ex_tie_def)
  have a: "ai_results ex_test = Some (ai_result ''tax_preparation'' 1700000001 1700000006)"
    and h: "human_results ex_test = Some ex_human"
    by (simp_all add: ex_test_def)
  have w: "ai_result ''tax_preparation'' 1700000001 1700000006 ''time_taken'' = Some (Num 5)"
    "ex_human ''time_taken'' = Some (Num 10800)"
    "ex_human ''accuracy_score'' = Some (Num (95 / 100))"
    by (simp_all add: ai_result_tax ex_human_def)
  from ties_favor_human [OF ex_tie_comparison r, of 7 7 "9 / 10" "9 / 10"]
  have "speed_advantage ex_tie_cmp = ''Human'' \<and> acc_winner (accuracy ex_tie_cmp) = ''Human''"
    using v by simp
  moreover from ties_favor_human [OF ex_comparison a h, of 5 10800 "98 / 100" "95 / 100"]
  have "speed_advantage ex_cmp = ''AI'' \<and> acc_winner (accuracy ex_cmp) = ''AI''"
    using w by (simp add: ai_result_tax)
  ultimately show ?thesis using ex_tie_comparison ex_comparison r v by simp
qed

subsection \<open>The example runs, evaluated\<close>

lemma str_int_examples:
  "str_int (py_int (6800000001 / 4)) = ''1700000000''"
  "str_int (py_int (6800000003 / 4)) = ''1700000000''"
  "str_int (py_int 1700020000) = ''1700020000''"
  by (simp_all add: py_int_def str_int_def str_nat.simps)

lemma ex_created_tests:
  "tests ex_created =
     [\<lparr>test_id = ''bench_1700000000'', test_type = ''tax_preparation'', scenario = Map.empty,
       complexity = ''high'', created_at = ''2023-11-14T22:13:20.250000'', status = ''pending'',
       ai_results = None, human_results = None, ai_completed_at = None,
       human_completed_at = None, comparison = None\<rparr>]"
  unfolding ex_created_def create_benchmark_test_def init_def Let_def
  by (simp add: str_int_examples)

lemma ex_ai_done_tests:
  "tests ex_ai_done =
     [\<lparr>test_id = ''bench_1700000000'', test_type = ''tax_preparation'', scenario = Map.empty,
       complexity = ''high'', created_at = ''2023-11-14T22:13:20.250000'', status = ''pending'',
       ai_results = Some (ai_result ''tax_preparation'' 1700000001 1700000006), human_results = None,
       ai_completed_at = Some ''2023-11-14T22:13:26'',
       human_completed_at = None, comparison = None\<rparr>]"
  unfolding ex_ai_done_def run_ai_benchmark_def Let_def
  by (simp add: ex_created_tests)

lemma ex_completed_tests: "tests ex_completed = [ex_test\<lparr>comparison := Some ex_cmp\<rparr>]"
proof -
  have "(tests ex_ai_done ! 0)\<lparr>human_results := Some ex_human,
          human_completed_at := Some ''2023-11-15T01:13:26'', status := ''completed''\<rparr> = ex_test"
    by (simp add: ex_ai_done_tests ex_test_def)
  then show ?thesis
    unfolding ex_completed_def record_human_results_def Let_def
    by (simp add: ex_ai_done_tests ex_comparison)
qed

lemma ex_one_of_two_tests:
  "tests ex_one_of_two =
     [ex_test\<lparr>comparison := Some ex_cmp\<rparr>,
      \<lparr>test_id = ''bench_1700020000'', test_type = ''research'', scenario = Map.empty,
       complexity = ''high'', created_at = ''2023-11-15T03:46:40'', status = ''pending'',
       ai_results = None, human_results = None, ai_completed_at = None,
       human_completed_at = None, comparison = None\<rparr>]"
  unfolding ex_one_of_two_def create_benchmark_test_def Let_def
  by (simp add: str_int_examples ex_completed_tests)

subsection \<open>The leaderboard\<close>

lemma sum_list_ones: "sum_list (map (\<lambda>t. 1::int) xs) = int (length xs)"
  by (induction xs) simp_all

lemma leaderboard_fields:
  "total_tests (get_leaderboard reg) = int (length (tests reg))"
  "ai_wins (get_leaderboard reg) = int (length (filter won_by_ai (tests reg)))"
  "human_wins (get_leaderboard reg) =
     int (length (tests reg)) - int (length (filter won_by_ai (tests reg)))"
  "ai_win_rate (get_leaderboard reg) =
     real_of_int (int (length (filter won_by_ai (tests reg))))
       / real_of_int (max (int (length (tests reg))) 1)"
  by (simp_all add: get_leaderboard_def Let_def sum_list_ones)

lemma losses_split:
  "int (length ts) - int (length (filter won_by_ai ts)) =
     int (length (filter (\<lambda>t. comparison t = None) ts)) +
     int (length (filter (\<lambda>t. comparison t \<noteq> None \<and> \<not> won_by_ai t) ts))"
  by (induction ts) (auto simp: won_by_ai_def)

text \<open>
  C6. For every registry the leaderboard reports \<open>human_wins\<close> as \<open>total_tests\<close> minus
  \<open>ai_wins\<close>, where \<open>total_tests\<close> counts all tests and \<open>ai_wins\<close> those whose stored
  comparison names the AI as overall winner. So \<open>human_wins\<close> is the number of tests with no
  comparison plus the number of tests whose comparison names another winner: each
  incomplete test counts as a human win.
\<close>

theorem leaderboard_human_wins:
  "human_wins (get_leaderboard reg) =
     total_tests (get_leaderboard reg) - ai_wins (get_leaderboard reg) \<and>
   total_tests (get_leaderboard reg) = int (length (tests reg)) \<and>
   ai_wins (get_leaderboard reg) = int (length (filter won_by_ai (tests reg))) \<and>
   human_wins (get_leaderboard reg) =
     int (length (filter (\<lambda>t. comparison t = None) (tests reg))) +
     int (length (filter (\<lambda>t. comparison t \<noteq> None \<and> \<not> won_by_ai t) (tests reg)))"
  by (simp add: leaderboard_fields losses_split)

lemma ex_won: "filter won_by_ai (tests ex_one_of_two) = [ex_test\<lparr>comparison := Some ex_cmp\<rparr>]"
  by (simp add: ex_one_of_two_tests won_by_ai_def ex_cmp_def)

theorem leaderboard_human_wins_witness:
  "total_tests (get_leaderboard ex_one_of_two) = 2 \<and>
   ai_wins (get_leaderboard ex_one_of_two) = 1 \<and>
   human_wins (get_leaderboard ex_one_of_two) = 1 \<and>
   int (length (filter (\<lambda>t. comparison t = None) (tests ex_one_of_two))) = 1"
  using leaderboard_human_wins [of ex_one_of_two]
  by (simp add: ex_won) (simp add: ex_one_of_two_tests)

lemma rate_arith:
  fixes w n :: nat
  assumes "w \<le> n"
  shows "0 \<le> real_of_int (int w) / real_of_int (max (int n) 1)"
    and "real_of_int (int w) / real_of_int (max (int n) 1) \<le> 1"
    and "0 < n \<Longrightarrow> real_of_int (max (int n) 1) = real_of_int (int n)"
proof -
  show "0 \<le> real_of_int (int w) / real_of_int (max (int n) 1)"
    by simp
  have "int w \<le> max (int n) 1"
    using assms by linarith
  then have "real_of_int (int w) \<le> real_of_int (max (int n) 1)"
    by (simp only: of_int_le_iff)
  moreover have "0 < real_of_int (max (int n) 1)"
    by simp
  ultimately show "real_of_int (int w) / real_of_int (max (int n) 1) \<le> 1"
    by (simp only: divide_le_eq_1_pos)
  show "0 < n \<Longrightarrow> real_of_int (max (int n) 1) = real_of_int (int n)"
    by (simp add: max_def)
qed

text \<open>
  C9. For every registry the leaderboard's \<open>total_tests\<close> is the number of stored tests,
  \<open>ai_wins\<close> the number of stored tests whose comparison names the AI as overall winner,
  and \<open>ai_win_rate\<close> is \<open>ai_wins\<close> divided by the larger of \<open>total_tests\<close> and 1. The rate
  lies between 0 and 1; it is \<open>ai_wins\<close> divided by \<open>total_tests\<close> when there is at least
  one test, and 0 on the empty registry.
\<close>

theorem ai_win_rate_bounds:
  "total_tests (get_leaderboard reg) = int (length (tests reg)) \<and>
   ai_wins (get_leaderboard reg) = int (length (filter won_by_ai (tests reg))) \<and>
   ai_win_rate (get_leaderboard reg) =
     real (length (filter won_by_ai (tests reg))) / real (max (length (tests reg)) 1) \<and>
   ai_win_rate (get_leaderboard reg) =
     real_of_int (ai_wins (get_leaderboard reg))
       / real_of_int (max (total_tests (get_leaderboard reg)) 1) \<and>
   0 \<le> ai_win_rate (get_leaderboard reg) \<and> ai_win_rate (get_leaderboard reg) \<le> 1 \<and>
   (0 < total_tests (get_leaderboard reg) \<longrightarrow>
      ai_win_rate (get_leaderboard reg) =
        real_of_int (ai_wins (get_leaderboard reg))
          / real_of_int (total_tests (get_leaderboard reg))) \<and>
   (tests reg \<noteq> [] \<longrightarrow>
      ai_win_rate (get_leaderboard reg) =
        real (length (filter won_by_ai (tests reg))) / real (length (tests reg))) \<and>
   (tests reg = [] \<longrightarrow> ai_win_rate (get_leaderboard reg) = 0)"
proof -
  let ?w = "length (filter won_by_ai (tests reg))" and ?n = "length (tests reg)"
  have le: "?w \<le> ?n"
    by (rule length_filter_le)
  note r = rate_arith [OF le]
  have rate: "ai_win_rate (get_leaderboard reg) =
                real_of_int (int ?w) / real_of_int (max (int ?n) 1)"
    by (rule leaderboard_fields(4))
  have m: "real_of_int (max (int ?n) 1) = real (max ?n 1)"
    by (simp add: max_def)
  have w: "real_of_int (int ?w) = real ?w"
    by simp
  have tot: "total_tests (get_leaderboard reg) = int ?n"
    and wins: "ai_wins (get_leaderboard reg) = int ?w"
    by (rule leaderboard_fields)+
  have nonempty: "0 < ?n \<Longrightarrow> ai_win_rate (get_leaderboard reg) = real ?w / real ?n"
    using r(3) rate by simp
  have c3: "ai_win_rate (get_leaderboard reg) = real ?w / real (max ?n 1)"
    using rate m w by (simp only:)
  have c4: "ai_win_rate (get_leaderboard reg) =
     real_of_int (ai_wins (get_leaderboard reg))
       / real_of_int (max (total_tests (get_leaderboard reg)) 1)"
    using rate by (simp only: tot wins)
  have c5: "0 \<le> ai_win_rate (get_leaderboard reg)"
    using r(1) by (simp only: rate)
  have c6: "ai_win_rate (get_leaderboard reg) \<le> 1"
    using r(2) by (simp only: rate)
  have c7: "0 < total_tests (get_leaderboard reg) \<longrightarrow>
      ai_win_rate (get_leaderboard reg) =
        real_of_int (ai_wins (get_leaderboard reg))
          / real_of_int (total_tests (get_leaderboard reg))"
    using nonempty by (simp add: tot wins)
  have c8: "tests reg \<noteq> [] \<longrightarrow> ai_win_rate (get_leaderboard reg) = real ?w / real ?n"
    using nonempty by simp
  have c9: "tests reg = [] \<longrightarrow> ai_win_rate (get_leaderboard reg) = 0"
    by (simp add: rate)
  from tot wins c3 c4 c5 c6 c7 c8 c9 show ?thesis
    by blast
qed

theorem ai_win_rate_bounds_witness:
  "tests ex_one_of_two \<noteq> [] \<and>
   0 < total_tests (get_leaderboard ex_one_of_two) \<and>
   total_tests (get_leaderboard ex_one_of_two) = 2 \<and>
   ai_wins (get_leaderboard ex_one_of_two) = 1 \<and>
   ai_win_rate (get_leaderboard ex_one_of_two) = 1 / 2 \<and>
   tests init = [] \<and>
   total_tests (get_leaderboard init) = 0 \<and>
   ai_wins (get_leaderboard init) = 0 \<and>
   ai_win_rate (get_leaderboard init) = 0"
proof -
  have e: "tests init = []"
    by (simp add: init_def)
  have n: "length (tests ex_one_of_two) = 2"
    by (simp add: ex_one_of_two_tests)
  have w: "length (filter won_by_ai (tests ex_one_of_two)) = 1"
    by (simp add: ex_won)
  from ai_win_rate_bounds [of ex_one_of_two]
  have "tests ex_one_of_two \<noteq> [] \<and>
        0 < total_tests (get_leaderboard ex_one_of_two) \<and>
        total_tests (get_leaderboard ex_one_of_two) = 2 \<and>
        ai_wins (get_leaderboard ex_one_of_two) = 1 \<and>
        ai_win_rate (get_leaderboard ex_one_of_two) = 1 / 2"
    unfolding n w by (simp add: ex_one_of_two_tests)
  moreover from ai_win_rate_bounds [of init]
  have "total_tests (get_leaderboard init) = 0 \<and> ai_wins (get_leaderboard init) = 0 \<and>
        ai_win_rate (get_leaderboard init) = 0"
    unfolding e by simp
  ultimately show ?thesis using e by blast
qed

subsection \<open>Unknown identifiers\<close>

text \<open>
  C10. When no test of the registry has the identifier, \<open>run_ai_benchmark\<close> and
  \<open>record_human_results\<close> both return the dictionary \<^verbatim>\<open>{"error": "Test not found"}\<close> and the
  registry they leave is the registry they were given.
\<close>

theorem unknown_id_no_change:
  assumes "tid \<notin> test_id ` set (tests reg)"
  shows "run_ai_benchmark tid t0 t1 stamp reg = ([''error'' \<mapsto> Str ''Test not found''], reg) \<and>
         record_human_results tid human stamp reg = (Inr (ErrorDict ''Test not found''), reg) \<and>
         get_test (tests reg) tid = None"
proof -
  from assms have "test_index (tests reg) tid = None"
    by (simp add: test_index_None)
  then show ?thesis
    by (simp add: run_ai_benchmark_def record_human_results_def get_test_index)
qed

theorem unknown_id_no_change_witness:
  "''bench_42'' \<notin> test_id ` set (tests ex_completed) \<and>
   run_ai_benchmark ''bench_42'' 1 2 ''2023-11-15T04:00:00'' ex_completed =
     ([''error'' \<mapsto> Str ''Test not found''], ex_completed) \<and>
   record_human_results ''bench_42'' ex_human ''2023-11-15T04:00:00'' ex_completed =
     (Inr (ErrorDict ''Test not found''), ex_completed)"
proof -
  have n: "''bench_42'' \<notin> test_id ` set (tests ex_completed)"
    by (simp add: ex_completed_tests ex_test_def)
  from unknown_id_no_change [OF n] show ?thesis using n by simp
qed

subsection \<open>Recording results\<close>

lemma run_ai_tests:
  assumes "test_index (tests reg) tid = Some i"
  shows "tests (snd (run_ai_benchmark tid t0 t1 stamp reg)) =
           (tests reg)[i := (tests reg ! i)\<lparr>ai_results := Some (ai_result (test_type (tests reg ! i)) t0 t1),
                                            ai_completed_at := Some stamp\<rparr>]"
  using assms by (simp add: run_ai_benchmark_def Let_def)

lemma record_human_tests:
  assumes "test_index (tests reg) tid = Some i"
  shows "\<exists>t'. tests (snd (record_human_results tid human stamp reg)) = (tests reg)[i := t'] \<and>
              human_results t' = Some human \<and> human_completed_at t' = Some stamp \<and>
              status t' = ''completed'' \<and> ai_results t' = ai_results (tests reg ! i) \<and>
              test_id t' = test_id (tests reg ! i) \<and>
              (\<forall>c. fst (record_human_results tid human stamp reg) = Inr (ComparisonDict c) \<longrightarrow>
                     comparison t' = Some c)"
  using assms by (auto simp: record_human_results_def Let_def split: sum.splits)

text \<open>
  With no AI result stored, \<open>calculate_comparison\<close> applies \<^verbatim>\<open>.get\<close> to \<^verbatim>\<open>None\<close>, so the
  call ends in an \<^verbatim>\<open>AttributeError\<close>; the assignments before it have been made.
\<close>

lemma record_human_without_ai_raises:
  assumes "test_index (tests reg) tid = Some i" and "ai_results (tests reg ! i) = None"
  shows "fst (record_human_results tid human stamp reg) = Inl AttributeError"
  using assms by (simp add: record_human_results_def Let_def calculate_comparison_def)

text \<open>
  C1, as amended. \<open>record_human_results\<close> has no guard on the AI result. Called on a test
  of the registry whose \<open>ai_results\<close> is still absent, it stores the submitted record as the
  test's \<open>human_results\<close>, sets \<open>human_completed_at\<close> and sets the status to
  \<open>''completed''\<close>; \<open>ai_results\<close> stays absent.
\<close>

theorem record_human_without_ai_result:
  assumes "test_index (tests reg) tid = Some i" and "ai_results (tests reg ! i) = None"
  shows "human_results (tests (snd (record_human_results tid human stamp reg)) ! i) = Some human \<and>
         human_completed_at (tests (snd (record_human_results tid human stamp reg)) ! i) = Some stamp \<and>
         status (tests (snd (record_human_results tid human stamp reg)) ! i) = ''completed'' \<and>
         ai_results (tests (snd (record_human_results tid human stamp reg)) ! i) = None"
proof -
  from assms(1) have "i < length (tests reg)"
    by (simp add: test_index_bound)
  moreover from record_human_tests [OF assms(1)] obtain t'
    where "tests (snd (record_human_results tid human stamp reg)) = (tests reg)[i := t']"
      and "human_results t' = Some human" and "human_completed_at t' = Some stamp"
      and "status t' = ''completed''" and "ai_results t' = ai_results (tests reg ! i)"
    by blast
  ultimately show ?thesis using assms(2) by simp
qed

lemma ex_created_index: "test_index (tests ex_created) ''bench_1700000000'' = Some 0"
  by (simp add: ex_created_tests)

text \<open>
  C1 as stated fails: on a freshly created test the call does not leave \<open>human_results\<close>
  unset, and the error it ends in is an \<^verbatim>\<open>AttributeError\<close>.
\<close>

theorem record_human_first_sets_result:
  "ai_results (tests ex_created ! 0) = None \<and>
   fst (record_human_results ''bench_1700000000'' ex_human ''2023-11-15T01:13:26'' ex_created)
     = Inl AttributeError \<and>
   human_results (tests ex_human_first ! 0) = Some ex_human"
  by (simp add: ex_human_first_def record_human_results_def Let_def ex_created_tests
      calculate_comparison_def)

theorem record_human_without_ai_result_witness:
  "test_index (tests ex_created) ''bench_1700000000'' = Some 0 \<and>
   ai_results (tests ex_created ! 0) = None \<and>
   human_results (tests ex_human_first ! 0) = Some ex_human \<and>
   status (tests ex_human_first ! 0) = ''completed''"
proof -
  have n: "ai_results (tests ex_created ! 0) = None"
    by (simp add: ex_created_tests)
  from record_human_without_ai_result [OF ex_created_index n, of ex_human "''2023-11-15T01:13:26''"]
  show ?thesis using ex_created_index n by (simp add: ex_human_first_def)
qed

text \<open>
  C3, as amended. The result fields are not write-once. Every \<open>run_ai_benchmark\<close> on an
  identifier of the registry sets the test's \<open>ai_results\<close> to the newly produced record,
  whatever was stored before, and leaves \<open>human_results\<close> and \<open>comparison\<close> as they were.
  Every \<open>record_human_results\<close> sets \<open>human_results\<close> to the submitted record, leaves
  \<open>ai_results\<close> as it was, and stores the comparison it returns.
\<close>

theorem results_are_overwritten:
  assumes "test_index (tests reg) tid = Some i"
  shows "ai_results (tests (snd (run_ai_benchmark tid t0 t1 stamp reg)) ! i)
           = Some (ai_result (test_type (tests reg ! i)) t0 t1) \<and>
         human_results (tests (snd (run_ai_benchmark tid t0 t1 stamp reg)) ! i)
           = human_results (tests reg ! i) \<and>
         comparison (tests (snd (run_ai_benchmark tid t0 t1 stamp reg)) ! i)
           = comparison (tests reg ! i) \<and>
         human_results (tests (snd (record_human_results tid human stamp' reg)) ! i) = Some human \<and>
         ai_results (tests (snd (record_human_results tid human stamp' reg)) ! i)
           = ai_results (tests reg ! i) \<and>
         (fst (record_human_results tid human stamp' reg) = Inr (ComparisonDict c) \<longrightarrow>
            comparison (tests (snd (record_human_results tid human stamp' reg)) ! i) = Some c)"
proof -
  from assms have i: "i < length (tests reg)"
    by (simp add: test_index_bound)
  from record_human_tests [OF assms, of human stamp'] obtain t'
    where "tests (snd (record_human_results tid human stamp' reg)) = (tests reg)[i := t']"
      and "human_results t' = Some human" and "ai_results t' = ai_results (tests reg ! i)"
      and "\<forall>c. fst (record_human_results tid human stamp' reg) = Inr (ComparisonDict c) \<longrightarrow>
                     comparison t' = Some c"
    by blast
  then show ?thesis
    using i by (simp add: run_ai_tests [OF assms])
qed

lemma ex_ai_done_index: "test_index (tests ex_ai_done) ''bench_1700000000'' = Some 0"
  by (simp add: ex_ai_done_tests)

text \<open>
  C3 as stated fails: a second AI run on the same test replaces the stored result (the
  time taken was 5 seconds, then 2).
\<close>

theorem ai_result_overwritten:
  "ai_results (tests ex_ai_done ! 0) = Some (ai_result ''tax_preparation'' 1700000001 1700000006) \<and>
   ai_results (tests ex_ai_again ! 0) = Some (ai_result ''tax_preparation'' 1700000010 1700000012) \<and>
   ai_result ''tax_preparation'' 1700000001 1700000006 ''time_taken'' = Some (Num 5) \<and>
   ai_result ''tax_preparation'' 1700000010 1700000012 ''time_taken'' = Some (Num 2)"
  by (simp add: ex_ai_again_def run_ai_tests [OF ex_ai_done_index] ex_ai_done_tests ai_result_tax)

theorem results_are_overwritten_witness:
  "test_index (tests ex_ai_done) ''bench_1700000000'' = Some 0 \<and>
   ai_results (tests ex_ai_again ! 0) = Some (ai_result ''tax_preparation'' 1700000010 1700000012) \<and>
   fst (record_human_results ''bench_1700000000'' ex_human ''2023-11-15T01:13:26'' ex_ai_done)
     = Inr (ComparisonDict ex_cmp) \<and>
   comparison (tests ex_completed ! 0) = Some ex_cmp"
proof -
  have t: "(tests ex_ai_done ! 0)\<lparr>human_results := Some ex_human,
          human_completed_at := Some ''2023-11-15T01:13:26'', status := ''completed''\<rparr> = ex_test"
    by (simp add: ex_ai_done_tests ex_test_def)
  have f: "fst (record_human_results ''bench_1700000000'' ex_human ''2023-11-15T01:13:26'' ex_ai_done)
     = Inr (ComparisonDict ex_cmp)"
    by (simp add: record_human_results_def Let_def ex_ai_done_index t ex_comparison)
  from results_are_overwritten [OF ex_ai_done_index,
      of 1700000010 1700000012 "''2023-11-14T22:13:32''" ex_human "''2023-11-15T01:13:26''" ex_cmp]
  show ?thesis using f ex_ai_done_index
    by (simp add: ex_ai_again_def ex_completed_def ex_ai_done_tests)
qed

subsection \<open>Status\<close>

lemma update_preserves:
  assumes "\<forall>t\<in>set xs. P t" and "P x"
  shows "\<forall>t\<in>set (xs[i := x]). P t"
  using assms set_update_subset_insert [of xs i x] by auto

lemma step_status:
  assumes "\<forall>t\<in>set (tests reg). status t = (if human_results t = None then ''pending'' else ''completed'')"
  shows "\<forall>t\<in>set (tests (step reg c)). status t = (if human_results t = None then ''pending'' else ''completed'')"
proof (cases c)
  case (Create ttype scen cplx now stamp)
  then show ?thesis
    using assms by (simp add: create_benchmark_test_def Let_def)
next
  case (RunAi tid t0 t1 stamp)
  show ?thesis
  proof (cases "test_index (tests reg) tid")
    case None
    then show ?thesis
      using assms RunAi by (simp add: run_ai_benchmark_def)
  next
    case (Some i)
    then have "tests reg ! i \<in> set (tests reg)"
      by (simp add: test_index_bound)
    with assms show ?thesis
      unfolding RunAi step.simps run_ai_tests [OF Some]
      by (intro update_preserves) simp_all
  qed
next
  case (RecordHuman tid human stamp)
  show ?thesis
  proof (cases "test_index (tests reg) tid")
    case None
    then show ?thesis
      using assms RecordHuman by (simp add: record_human_results_def)
  next
    case (Some i)
    from record_human_tests [OF Some, of human stamp] obtain t'
      where "tests (snd (record_human_results tid human stamp reg)) = (tests reg)[i := t']"
        and "human_results t' = Some human" and "status t' = ''completed''"
      by blast
    with assms show ?thesis
      unfolding RecordHuman step.simps
      by (simp only:) (intro update_preserves, simp_all)
  qed
qed

lemma reachable_status:
  "reachable reg \<Longrightarrow>
   \<forall>t\<in>set (tests reg). status t = (if human_results t = None then ''pending'' else ''completed'')"
proof (induction rule: reachable.induct)
  case reachable_init
  show ?case by (simp add: init_def)
next
  case (reachable_step reg c)
  then show ?case by (intro step_status)
qed

lemma step_keeps:
  assumes "i < length (tests reg)"
  shows "i < length (tests (step reg c)) \<and>
         test_id (tests (step reg c) ! i) = test_id (tests reg ! i) \<and>
         (status (tests reg ! i) = ''completed'' \<longrightarrow> status (tests (step reg c) ! i) = ''completed'')"
proof (cases c)
  case (Create ttype scen cplx now stamp)
  then show ?thesis
    using assms by (simp add: create_benchmark_test_def Let_def nth_append)
next
  case (RunAi tid t0 t1 stamp)
  show ?thesis
  proof (cases "test_index (tests reg) tid")
    case None
    then show ?thesis
      using assms RunAi by (simp add: run_ai_benchmark_def)
  next
    case (Some j)
    show ?thesis
      unfolding RunAi step.simps run_ai_tests [OF Some]
      using assms by (cases "i = j") simp_all
  qed
next
  case (RecordHuman tid human stamp)
  show ?thesis
  proof (cases "test_index (tests reg) tid")
    case None
    then show ?thesis
      using assms RecordHuman by (simp add: record_human_results_def)
  next
    case (Some j)
    from record_human_tests [OF Some, of human stamp] obtain t'
      where "tests (snd (record_human_results tid human stamp reg)) = (tests reg)[j := t']"
        and "status t' = ''completed''" and "test_id t' = test_id (tests reg ! j)"
      by blast
    then show ?thesis
      unfolding RecordHuman step.simps
      using assms by (cases "i = j") simp_all
  qed
qed

text \<open>
  C4, as amended. In every reachable registry the status of a test is \<open>''pending''\<close> while
  its \<open>human_results\<close> is absent and \<open>''completed''\<close> once it is set, whether or not
  \<open>ai_results\<close> is set; so it is \<open>''completed''\<close> when both are set. No call moves a test from
  \<open>''completed''\<close> back: the test keeps its position and identifier and stays
  \<open>''completed''\<close>.
\<close>

theorem status_follows_human_result:
  assumes "reachable reg" and "i < length (tests reg)"
  shows "status (tests reg ! i) =
           (if human_results (tests reg ! i) = None then ''pending'' else ''completed'') \<and>
         i < length (tests (step reg c)) \<and>
         test_id (tests (step reg c) ! i) = test_id (tests reg ! i) \<and>
         (status (tests reg ! i) = ''completed'' \<longrightarrow>
            status (tests (step reg c) ! i) = ''completed'')"
proof -
  from assms(2) have "tests reg ! i \<in> set (tests reg)"
    by simp
  with reachable_status [OF assms(1)]
  have "status (tests reg ! i) =
           (if human_results (tests reg ! i) = None then ''pending'' else ''completed'')"
    by blast
  with step_keeps [OF assms(2), of c] show ?thesis
    by blast
qed

lemma ex_created_reachable: "reachable ex_created"
proof -
  have e: "ex_created = step init (Create ''tax_preparation'' Map.empty ''high'' (6800000001 / 4)
            ''2023-11-14T22:13:20.250000'')"
    by (simp add: ex_created_def)
  show ?thesis
    by (subst e) (rule reachable_step [OF reachable_init])
qed

lemma ex_human_first_reachable: "reachable ex_human_first"
proof -
  have e: "ex_human_first =
             step ex_created (RecordHuman ''bench_1700000000'' ex_human ''2023-11-15T01:13:26'')"
    by (simp add: ex_human_first_def)
  show ?thesis
    by (subst e) (rule reachable_step [OF ex_created_reachable])
qed

lemma ex_completed_reachable: "reachable ex_completed"
proof -
  have a: "ex_ai_done = step ex_created (RunAi ''bench_1700000000'' 1700000001 1700000006
            ''2023-11-14T22:13:26'')"
    by (simp add: ex_ai_done_def)
  have r: "reachable ex_ai_done"
    by (subst a) (rule reachable_step [OF ex_created_reachable])
  have e: "ex_completed =
             step ex_ai_done (RecordHuman ''bench_1700000000'' ex_human ''2023-11-15T01:13:26'')"
    by (simp add: ex_completed_def)
  show ?thesis
    by (subst e) (rule reachable_step [OF r])
qed

text \<open>
  C4 as stated fails: after a human result is recorded on a fresh test, the test is
  \<open>''completed''\<close> while its \<open>ai_results\<close> is absent.
\<close>

theorem completed_without_ai_result:
  "reachable ex_human_first \<and> ai_results (tests ex_human_first ! 0) = None \<and>
   status (tests ex_human_first ! 0) = ''completed''"
  using ex_human_first_reachable
  by (simp add: ex_human_first_def record_human_results_def Let_def ex_created_tests
      calculate_comparison_def)

theorem status_follows_human_result_witness:
  "reachable ex_completed \<and> 0 < length (tests ex_completed) \<and>
   human_results (tests ex_completed ! 0) = Some ex_human \<and>
   status (tests ex_completed ! 0) = ''completed'' \<and>
   status (tests (step ex_completed (RunAi ''bench_1700000000'' 1700000010 1700000012
            ''2023-11-14T22:13:32'')) ! 0) = ''completed''"
proof -
  have l: "0 < length (tests ex_completed)"
    by (simp add: ex_completed_tests)
  have h: "human_results (tests ex_completed ! 0) = Some ex_human"
    by (simp add: ex_completed_tests ex_test_def)
  from status_follows_human_result [OF ex_completed_reachable l,
      of "RunAi ''bench_1700000000'' 1700000010 1700000012 ''2023-11-14T22:13:32''"]
  show ?thesis using ex_completed_reachable l h by simp
qed

subsection \<open>Identifiers\<close>

text \<open>
  C2. The identifier is \<^verbatim>\<open>bench_\<close> followed by the whole seconds of the clock. Two tests
  created at \<open>1700000000.25\<close> and \<open>1700000000.75\<close> both get \<^verbatim>\<open>bench_1700000000\<close>; the
  lookup by that identifier finds the first one only.
\<close>

theorem create_same_second_collision:
  "map test_id (tests ex_same_second) = [''bench_1700000000'', ''bench_1700000000''] \<and>
   \<not> distinct (map test_id (tests ex_same_second)) \<and>
   test_index (tests ex_same_second) ''bench_1700000000'' = Some 0"
  unfolding ex_same_second_def create_benchmark_test_def Let_def
  by (simp add: str_int_examples ex_created_tests)

end
